theory Spec2Isabelle
  imports Main
begin

section \<open>The GPT Researcher MCP shim (\<^verbatim>\<open>mcp-servers/gpt-researcher-mcp.py\<close>)\<close>

text \<open>
  The module under verification:
  \<^verbatim>\<open>
   1  import os
   2  from gpt_researcher import GPTResearcher
   3
   4  async def research(query):
   5      researcher = GPTResearcher(query=query, report_type="research_report")
   6      report = await researcher.conduct_research()
   7      return report
   8
   9  if __name__ == "__main__":
  10      print("GPT Researcher MCP Server started")
  \<close>
  The library \<^verbatim>\<open>gpt_researcher\<close> is not part of the repository. It is a parameter of
  the model: a class constructor taking keyword arguments and one asynchronous method,
  both of which may return, raise or never come back, and both of which may change the
  world outside the module.
\<close>

subsection \<open>Python values and the external library\<close>

text \<open>
  Python is untyped: the query the caller passes and the report the library hands back
  are arbitrary values. The instance the constructor returns is an opaque object
  \<open>'obj\<close>; exceptions are opaque values \<open>'e\<close>.
\<close>

datatype pyval =
    PyNone
  | PyBool bool
  | PyInt int
  | PyStr string
  | PyList "pyval list"

type_synonym kwargs = "(string \<times> pyval) list"

text \<open>
  An external operation run in world \<open>w\<close>: \<open>None\<close> when it never returns,
  \<open>Some (Inl e, w')\<close> when it raises \<open>e\<close>, \<open>Some (Inr x, w')\<close> when it returns \<open>x\<close>.
\<close>

type_synonym ('e, 'a, 'w) ext = "'w \<Rightarrow> (('e + 'a) \<times> 'w) option"

text \<open>
  \<open>GPTResearcher\<close> is the class as called with keyword arguments (line 5);
  \<open>conduct_research\<close> is the coroutine method of an instance, run to completion by
  the \<^verbatim>\<open>await\<close> of line 6. Calling a coroutine method only creates the coroutine
  object, so everything the method does happens under the \<^verbatim>\<open>await\<close>.
\<close>

record ('obj, 'e, 'w) library =
  GPTResearcher :: "kwargs \<Rightarrow> ('e, 'obj, 'w) ext"
  conduct_research :: "'obj \<Rightarrow> ('e, pyval, 'w) ext"

subsection \<open>The interpreter state\<close>

text \<open>
  What the module can touch: the world of the library, standard output, and a log of
  the module's interactions with other modules (imports, constructor calls, awaits) in
  the order they happen. The body of \<^verbatim>\<open>research\<close> works on this state, with the
  class that the name \<^verbatim>\<open>GPTResearcher\<close> denotes as its \<open>library\<close> parameter; the
  namespace of the module, where that name is looked up, comes with \<open>call_research\<close>
  below.
\<close>

datatype 'obj event =
    Import string
  | Import_from string string
  | Call_GPTResearcher kwargs
  | Await_conduct_research 'obj

record ('obj, 'w) runtime =
  world :: 'w
  stdout :: string
  trace :: "'obj event list"

text \<open>
  A coroutine is a function of the state: nothing runs until it is driven. Its outcome
  is \<open>None\<close> when it never completes, \<open>Some (Inl e)\<close> when it raises \<open>e\<close> and
  \<open>Some (Inr x)\<close> when it returns \<open>x\<close>; the state is the one reached at that point.
\<close>

type_synonym ('e, 'a, 'obj, 'w) coro =
  "('obj, 'w) runtime \<Rightarrow> ('e + 'a) option \<times> ('obj, 'w) runtime"

definition perform :: "'obj event \<Rightarrow> ('e, 'a, 'w) ext \<Rightarrow> ('e, 'a, 'obj, 'w) coro" where
  "perform ev op st =
     (let st1 = st\<lparr>trace := trace st @ [ev]\<rparr> in
      case op (world st1) of
        None \<Rightarrow> (None, st1)
      | Some (r, w) \<Rightarrow> (Some r, st1\<lparr>world := w\<rparr>))"

definition return_coro :: "'a \<Rightarrow> ('e, 'a, 'obj, 'w) coro" where
  "return_coro x st = (Some (Inr x), st)"

definition bind_coro ::
  "('e, 'a, 'obj, 'w) coro \<Rightarrow> ('a \<Rightarrow> ('e, 'b, 'obj, 'w) coro) \<Rightarrow> ('e, 'b, 'obj, 'w) coro" where
  "bind_coro m f st =
     (case m st of
        (None, st') \<Rightarrow> (None, st')
      | (Some (Inl e), st') \<Rightarrow> (Some (Inl e), st')
      | (Some (Inr x), st') \<Rightarrow> f x st')"

subsection \<open>The function \<^verbatim>\<open>research\<close> (lines 4 to 7)\<close>

definition research_kwargs :: "pyval \<Rightarrow> kwargs" where
  "research_kwargs query = [(''query'', query), (''report_type'', PyStr ''research_report'')]"

definition research :: "('obj, 'e, 'w) library \<Rightarrow> pyval \<Rightarrow> ('e, pyval, 'obj, 'w) coro" where
  "research lib query =
     bind_coro
       (perform (Call_GPTResearcher (research_kwargs query))
          (GPTResearcher lib (research_kwargs query)))
       (\<lambda>researcher.
          bind_coro
            (perform (Await_conduct_research researcher) (conduct_research lib researcher))
            (\<lambda>report. return_coro report))"

subsection \<open>The module body (lines 1, 2, 9 and 10)\<close>

text \<open>
  \<^verbatim>\<open>print\<close> with one argument writes the text and a newline. The body of the module
  is run with \<^verbatim>\<open>__name__\<close> set by the interpreter: to \<^verbatim>\<open>"__main__"\<close> when the file
  is the entry point, to the module's name when it is imported. Both imports are taken
  to succeed (otherwise there is no module); the \<^verbatim>\<open>def\<close> of line 4 is the definition
  \<open>research\<close> above and runs nothing.
\<close>

definition print_py :: "string \<Rightarrow> ('obj, 'w) runtime \<Rightarrow> ('obj, 'w) runtime" where
  "print_py s st = st\<lparr>stdout := stdout st @ s @ [CHR 0x0A]\<rparr>"

definition run_module :: "string \<Rightarrow> ('obj, 'w) runtime \<Rightarrow> ('obj, 'w) runtime" where
  "run_module name st =
     (let st1 = st\<lparr>trace := trace st @ [Import ''os'']\<rparr>;
          st2 = st1\<lparr>trace := trace st1 @ [Import_from ''gpt_researcher'' ''GPTResearcher'']\<rparr>
      in if name = ''__main__'' then print_py ''GPT Researcher MCP Server started'' st2
         else st2)"

subsection \<open>The module namespace and a call of \<^verbatim>\<open>research\<close>\<close>






subsection \<open>Reading the log\<close>

text \<open>
  The events a run added to the log, the keyword arguments of the constructor calls
  among some events, and the instances whose method was awaited among them.
\<close>

definition new_events :: "('obj, 'w) runtime \<Rightarrow> ('obj, 'w) runtime \<Rightarrow> 'obj event list" where
  "new_events st st' = drop (length (trace st)) (trace st')"

fun constructions :: "'obj event list \<Rightarrow> kwargs list" where
  "constructions [] = []"
| "constructions (Call_GPTResearcher kw # evs) = kw # constructions evs"
| "constructions (_ # evs) = constructions evs"

fun awaited :: "'obj event list \<Rightarrow> 'obj list" where
  "awaited [] = []"
| "awaited (Await_conduct_research obj # evs) = obj # awaited evs"
| "awaited (_ # evs) = awaited evs"

subsection \<open>Stand-ins for the library\<close>

text \<open>
  Test doubles in the sense of the specification's testable properties: the world of
  a stand-in is the list of keyword arguments its constructor was called with, an
  instance is its own keyword arguments, and exceptions are their names.
  \<^item> \<open>standin\<close> answers a text query \<open>q\<close> with the text \<open>REPORT:q\<close>;
  \<^item> \<open>standin_returning R\<close> answers every query with the value \<open>R\<close>;
  \<^item> \<open>standin_failing\<close> raises from the asynchronous operation;
  \<^item> \<open>standin_rejecting\<close> validates in the constructor and raises on an empty query.
\<close>

definition standin_init :: "kwargs \<Rightarrow> (string, kwargs, kwargs list) ext" where
  "standin_init kw w = Some (Inr kw, w @ [kw])"

definition standin :: "(kwargs, string, kwargs list) library" where
  "standin =
     \<lparr>GPTResearcher = standin_init,
      conduct_research = (\<lambda>self w.
        case map_of self ''query'' of
          Some (PyStr q) \<Rightarrow> Some (Inr (PyStr (''REPORT:'' @ q)), w)
        | _ \<Rightarrow> Some (Inl ''TypeError'', w))\<rparr>"

definition standin_returning :: "pyval \<Rightarrow> (kwargs, string, kwargs list) library" where
  "standin_returning R =
     \<lparr>GPTResearcher = standin_init,
      conduct_research = (\<lambda>self w. Some (Inr R, w))\<rparr>"

definition standin_failing :: "(kwargs, string, kwargs list) library" where
  "standin_failing =
     \<lparr>GPTResearcher = standin_init,
      conduct_research = (\<lambda>self w. Some (Inl ''QuotaExceeded'', w))\<rparr>"

definition standin_rejecting :: "(kwargs, string, kwargs list) library" where
  "standin_rejecting =
     \<lparr>GPTResearcher = (\<lambda>kw w.
        if map_of kw ''query'' = Some (PyStr []) then Some (Inl ''ValueError'', w)
        else standin_init kw w),
      conduct_research = (\<lambda>self w. Some (Inr (PyStr ''ok''), w))\<rparr>"

definition fresh :: "(kwargs, kwargs list) runtime" where
  "fresh = \<lparr>world = [], stdout = [], trace = []\<rparr>"



section \<open>What a run of \<^verbatim>\<open>research\<close> is\<close>

text \<open>
  The five ways a run can go, by what the library does. Every property below follows
  from these.
\<close>

lemma research_ctor_hangs:
  assumes "GPTResearcher lib (research_kwargs q) (world st) = None"
  shows "research lib q st =
           (None, st\<lparr>trace := trace st @ [Call_GPTResearcher (research_kwargs q)]\<rparr>)"
  using assms by (simp add: research_def bind_coro_def perform_def)

lemma research_ctor_raises:
  assumes "GPTResearcher lib (research_kwargs q) (world st) = Some (Inl e, w1)"
  shows "research lib q st =
           (Some (Inl e),
            st\<lparr>trace := trace st @ [Call_GPTResearcher (research_kwargs q)], world := w1\<rparr>)"
  using assms by (simp add: research_def bind_coro_def perform_def)

lemma research_op_hangs:
  assumes "GPTResearcher lib (research_kwargs q) (world st) = Some (Inr researcher, w1)"
      and "conduct_research lib researcher w1 = None"
  shows "research lib q st =
           (None,
            st\<lparr>trace := trace st @ [Call_GPTResearcher (research_kwargs q),
                                     Await_conduct_research researcher],
               world := w1\<rparr>)"
  using assms by (simp add: research_def bind_coro_def perform_def)

lemma research_op_raises:
  assumes "GPTResearcher lib (research_kwargs q) (world st) = Some (Inr researcher, w1)"
      and "conduct_research lib researcher w1 = Some (Inl e, w2)"
  shows "research lib q st =
           (Some (Inl e),
            st\<lparr>trace := trace st @ [Call_GPTResearcher (research_kwargs q),
                                     Await_conduct_research researcher],
               world := w2\<rparr>)"
  using assms by (simp add: research_def bind_coro_def perform_def)

lemma research_op_returns:
  assumes "GPTResearcher lib (research_kwargs q) (world st) = Some (Inr researcher, w1)"
      and "conduct_research lib researcher w1 = Some (Inr R, w2)"
  shows "research lib q st =
           (Some (Inr R),
            st\<lparr>trace := trace st @ [Call_GPTResearcher (research_kwargs q),
                                     Await_conduct_research researcher],
               world := w2\<rparr>)"
  using assms by (simp add: research_def bind_coro_def perform_def return_coro_def)

text \<open>The cases are exhaustive.\<close>

lemma research_cases:
  obtains
    (ctor_hangs) "GPTResearcher lib (research_kwargs q) (world st) = None"
  | (ctor_raises) e w1 where
      "GPTResearcher lib (research_kwargs q) (world st) = Some (Inl e, w1)"
  | (op_hangs) researcher w1 where
      "GPTResearcher lib (research_kwargs q) (world st) = Some (Inr researcher, w1)"
      "conduct_research lib researcher w1 = None"
  | (op_raises) researcher w1 e w2 where
      "GPTResearcher lib (research_kwargs q) (world st) = Some (Inr researcher, w1)"
      "conduct_research lib researcher w1 = Some (Inl e, w2)"
  | (op_returns) researcher w1 R w2 where
      "GPTResearcher lib (research_kwargs q) (world st) = Some (Inr researcher, w1)"
      "conduct_research lib researcher w1 = Some (Inr R, w2)"
proof (cases "GPTResearcher lib (research_kwargs q) (world st)")
  case None
  then show ?thesis by (rule ctor_hangs)
next
  case (Some r)
  obtain x w1 where r: "r = (x, w1)" by (cases r)
  show ?thesis
  proof (cases x)
    case (Inl e)
    with Some r show ?thesis by (auto intro: ctor_raises)
  next
    case (Inr researcher)
    note ctor = Some [unfolded r Inr]
    show ?thesis
    proof (cases "conduct_research lib researcher w1")
      case None
      with ctor show ?thesis by (rule op_hangs)
    next
      case (Some r')
      obtain y w2 where r': "r' = (y, w2)" by (cases r')
      show ?thesis
      proof (cases y)
        case (Inl e)
        with ctor Some r' show ?thesis by (auto intro: op_raises)
      next
        case (Inr R)
        with ctor Some r' show ?thesis by (auto intro: op_returns)
      qed
    qed
  qed
qed

text \<open>
  What every run adds to the log: the constructor call with the keyword arguments of
  line 5, then nothing or one await. Standard output is left alone.
\<close>

lemma research_trace:
  "\<exists>evs. trace (snd (research lib q st)) = trace st @ Call_GPTResearcher (research_kwargs q) # evs
         \<and> constructions evs = [] \<and> length evs \<le> 1
         \<and> evs = map Await_conduct_research (awaited evs)"
  by (cases rule: research_cases [of lib q st])
     (simp_all add: research_ctor_hangs research_ctor_raises research_op_hangs
        research_op_raises research_op_returns)








section \<open>The claims\<close>

text \<open>
  C1. For every query string \<open>Q\<close>, a run of \<open>research\<close> calls the constructor of the
  library exactly once, with exactly the two keyword arguments \<open>query = Q\<close> and
  \<open>report_type = "research_report"\<close>, whatever the library then does: \<open>Q\<close> arrives
  unmodified and nothing else is passed. The stand-in library, which records the
  arguments of its constructor, has recorded exactly these.
\<close>

theorem research_constructs_with_query:
  "constructions (new_events st (snd (research lib (PyStr Q) st))) =
     [[(''query'', PyStr Q), (''report_type'', PyStr ''research_report'')]]
   \<and> world (snd (research standin (PyStr Q) fresh)) =
     [[(''query'', PyStr Q), (''report_type'', PyStr ''research_report'')]]"
proof
  obtain evs where
    "trace (snd (research lib (PyStr Q) st)) =
       trace st @ Call_GPTResearcher (research_kwargs (PyStr Q)) # evs"
    and "constructions evs = []"
    using research_trace [of lib "PyStr Q" st] by blast
  then show "constructions (new_events st (snd (research lib (PyStr Q) st))) =
     [[(''query'', PyStr Q), (''report_type'', PyStr ''research_report'')]]"
    by (simp add: new_events_def research_kwargs_def)
next
  have "GPTResearcher standin (research_kwargs (PyStr Q)) (world fresh) =
          Some (Inr (research_kwargs (PyStr Q)), [research_kwargs (PyStr Q)])"
    by (simp add: standin_def standin_init_def fresh_def)
  moreover have "conduct_research standin (research_kwargs (PyStr Q)) [research_kwargs (PyStr Q)] =
          Some (Inr (PyStr (''REPORT:'' @ Q)), [research_kwargs (PyStr Q)])"
    by (simp add: standin_def research_kwargs_def)
  ultimately show "world (snd (research standin (PyStr Q) fresh)) =
     [[(''query'', PyStr Q), (''report_type'', PyStr ''research_report'')]]"
    by (simp add: research_op_returns research_kwargs_def)
qed

text \<open>
  C2. Whatever value \<open>R\<close> the asynchronous operation of the library returns, the run
  of \<open>research\<close> returns exactly \<open>R\<close>.
\<close>

theorem research_returns_report:
  assumes "GPTResearcher lib (research_kwargs q) (world st) = Some (Inr researcher, w1)"
      and "conduct_research lib researcher w1 = Some (Inr R, w2)"
  shows "fst (research lib q st) = Some (Inr R)"
  using assms by (simp add: research_op_returns)

text \<open>
  The scenario of the specification: the stand-in answers the query
  \<open>climate policy 2030\<close> with \<open>REPORT:climate policy 2030\<close>, and that is what the run
  returns.
\<close>

theorem research_returns_report_witness:
  "GPTResearcher standin (research_kwargs (PyStr ''climate policy 2030'')) (world fresh) =
     Some (Inr (research_kwargs (PyStr ''climate policy 2030'')),
           [research_kwargs (PyStr ''climate policy 2030'')])
   \<and> conduct_research standin (research_kwargs (PyStr ''climate policy 2030''))
       [research_kwargs (PyStr ''climate policy 2030'')] =
     Some (Inr (PyStr ''REPORT:climate policy 2030''),
           [research_kwargs (PyStr ''climate policy 2030'')])
   \<and> fst (research standin (PyStr ''climate policy 2030'') fresh) =
     Some (Inr (PyStr ''REPORT:climate policy 2030''))"
proof -
  have ctor:
    "GPTResearcher standin (research_kwargs (PyStr ''climate policy 2030'')) (world fresh) =
       Some (Inr (research_kwargs (PyStr ''climate policy 2030'')),
             [research_kwargs (PyStr ''climate policy 2030'')])"
    by (simp add: standin_def standin_init_def fresh_def)
  have op:
    "conduct_research standin (research_kwargs (PyStr ''climate policy 2030''))
       [research_kwargs (PyStr ''climate policy 2030'')] =
     Some (Inr (PyStr ''REPORT:climate policy 2030''),
           [research_kwargs (PyStr ''climate policy 2030'')])"
    by (simp add: standin_def research_kwargs_def)
  from ctor op research_returns_report [OF ctor op] show ?thesis by simp
qed

text \<open>
  C3. When the asynchronous operation of the library raises \<open>e\<close>, the run of
  \<open>research\<close> raises \<open>e\<close> itself, not a wrapper or a replacement, and does nothing
  after it: the log ends with the await and the world is the one the library left.
\<close>

theorem research_propagates_failure:
  assumes "GPTResearcher lib (research_kwargs q) (world st) = Some (Inr researcher, w1)"
      and "conduct_research lib researcher w1 = Some (Inl e, w2)"
  shows "fst (research lib q st) = Some (Inl e)
         \<and> world (snd (research lib q st)) = w2
         \<and> new_events st (snd (research lib q st)) =
             [Call_GPTResearcher (research_kwargs q), Await_conduct_research researcher]"
  using assms by (simp add: research_op_raises new_events_def)

theorem research_propagates_failure_witness:
  "GPTResearcher standin_failing (research_kwargs (PyStr ''tides'')) (world fresh) =
     Some (Inr (research_kwargs (PyStr ''tides'')), [research_kwargs (PyStr ''tides'')])
   \<and> conduct_research standin_failing (research_kwargs (PyStr ''tides''))
       [research_kwargs (PyStr ''tides'')] =
     Some (Inl ''QuotaExceeded'', [research_kwargs (PyStr ''tides'')])
   \<and> fst (research standin_failing (PyStr ''tides'') fresh) = Some (Inl ''QuotaExceeded'')"
proof -
  have ctor:
    "GPTResearcher standin_failing (research_kwargs (PyStr ''tides'')) (world fresh) =
       Some (Inr (research_kwargs (PyStr ''tides'')), [research_kwargs (PyStr ''tides'')])"
    by (simp add: standin_failing_def standin_init_def fresh_def)
  have op:
    "conduct_research standin_failing (research_kwargs (PyStr ''tides''))
       [research_kwargs (PyStr ''tides'')] =
     Some (Inl ''QuotaExceeded'', [research_kwargs (PyStr ''tides'')])"
    by (simp add: standin_failing_def)
  from ctor op research_propagates_failure [OF ctor op] show ?thesis by simp
qed

text \<open>
  C4. Run as the entry point, the module writes the startup text (one \<^verbatim>\<open>print\<close>,
  hence one line) to standard output and nothing else; it leaves the world of the
  library as it was, and besides its two imports it has no interaction with the
  library: no constructor call and no await, so \<open>research\<close>, every run of which
  starts with a constructor call, was not run.
\<close>

theorem run_module_as_main:
  "stdout (run_module ''__main__'' st) =
     stdout st @ ''GPT Researcher MCP Server started'' @ [CHR 0x0A]
   \<and> world (run_module ''__main__'' st) = world st
   \<and> new_events st (run_module ''__main__'' st) =
       [Import ''os'', Import_from ''gpt_researcher'' ''GPTResearcher'']
   \<and> constructions (new_events st (run_module ''__main__'' st)) = []
   \<and> awaited (new_events st (run_module ''__main__'' st)) = []"
  by (simp add: run_module_def print_py_def new_events_def)

text \<open>
  C5 (as amended). A run of \<open>research\<close> awaits the asynchronous operation at most
  once, and exactly once precisely when the constructor returned an instance; it is
  then the operation of that instance. The run's interactions with the library are the
  constructor call followed by the awaits, so there is no retry and no further call.
\<close>

theorem research_awaits_at_most_once:
  "length (awaited (new_events st (snd (research lib q st)))) \<le> 1
   \<and> (length (awaited (new_events st (snd (research lib q st)))) = 1 \<longleftrightarrow>
        (\<exists>researcher w1.
           GPTResearcher lib (research_kwargs q) (world st) = Some (Inr researcher, w1)))
   \<and> (awaited (new_events st (snd (research lib q st))) =
        (case GPTResearcher lib (research_kwargs q) (world st) of
           Some (Inr researcher, w1) \<Rightarrow> [researcher]
         | _ \<Rightarrow> []))
   \<and> new_events st (snd (research lib q st)) =
        Call_GPTResearcher (research_kwargs q) #
        map Await_conduct_research (awaited (new_events st (snd (research lib q st))))"
  by (cases rule: research_cases [of lib q st])
     (simp_all add: research_ctor_hangs research_ctor_raises research_op_hangs
        research_op_raises research_op_returns new_events_def)

text \<open>
  C5 as stated (every run awaits exactly once) fails when the constructor raises:
  line 6 is never reached. The stand-in whose constructor rejects the empty query,
  run on the empty query, awaits nothing.
\<close>

theorem research_awaits_exactly_once_counterexample:
  "\<not> length (awaited (new_events fresh
         (snd (research standin_rejecting (PyStr '''') fresh)))) = 1"
proof -
  have "GPTResearcher standin_rejecting (research_kwargs (PyStr '''')) (world fresh) =
          Some (Inl ''ValueError'', [])"
    by (simp add: standin_rejecting_def research_kwargs_def fresh_def)
  then show ?thesis
    by (simp add: research_ctor_raises new_events_def)
qed

text \<open>
  C6. \<open>research\<close> does not validate its argument. For every query, of any value and
  so for every string, the empty one included, the first thing a run does is to call
  the constructor with that query as given; and when the run raises \<open>e\<close>, it is the
  library that raised \<open>e\<close>, from the constructor or from the asynchronous operation.
\<close>

theorem research_no_validation:
  "take 1 (new_events st (snd (research lib q st))) =
     [Call_GPTResearcher [(''query'', q), (''report_type'', PyStr ''research_report'')]]
   \<and> (fst (research lib q st) = Some (Inl e) \<longrightarrow>
        (\<exists>w1. GPTResearcher lib (research_kwargs q) (world st) = Some (Inl e, w1))
        \<or> (\<exists>researcher w1 w2.
              GPTResearcher lib (research_kwargs q) (world st) = Some (Inr researcher, w1)
              \<and> conduct_research lib researcher w1 = Some (Inl e, w2)))"
proof
  obtain evs where
    "trace (snd (research lib q st)) = trace st @ Call_GPTResearcher (research_kwargs q) # evs"
    using research_trace [of lib q st] by blast
  then show "take 1 (new_events st (snd (research lib q st))) =
     [Call_GPTResearcher [(''query'', q), (''report_type'', PyStr ''research_report'')]]"
    by (simp add: new_events_def research_kwargs_def)
next
  show "fst (research lib q st) = Some (Inl e) \<longrightarrow>
        (\<exists>w1. GPTResearcher lib (research_kwargs q) (world st) = Some (Inl e, w1))
        \<or> (\<exists>researcher w1 w2.
              GPTResearcher lib (research_kwargs q) (world st) = Some (Inr researcher, w1)
              \<and> conduct_research lib researcher w1 = Some (Inl e, w2))"
    by (cases rule: research_cases [of lib q st])
       (simp_all add: research_ctor_hangs research_ctor_raises research_op_hangs
          research_op_raises research_op_returns)
qed

text \<open>
  The empty query reaches the constructor as it is; the error the run ends with is
  the one the validating stand-in raised from its constructor.
\<close>

theorem research_no_validation_witness:
  "fst (research standin_rejecting (PyStr '''') fresh) = Some (Inl ''ValueError'')
   \<and> take 1 (new_events fresh (snd (research standin_rejecting (PyStr '''') fresh))) =
       [Call_GPTResearcher [(''query'', PyStr ''''), (''report_type'', PyStr ''research_report'')]]
   \<and> GPTResearcher standin_rejecting (research_kwargs (PyStr '''')) (world fresh) =
       Some (Inl ''ValueError'', [])"
proof -
  have ctor: "GPTResearcher standin_rejecting (research_kwargs (PyStr '''')) (world fresh) =
       Some (Inl ''ValueError'', [])"
    by (simp add: standin_rejecting_def research_kwargs_def fresh_def)
  then have raised: "fst (research standin_rejecting (PyStr '''') fresh) = Some (Inl ''ValueError'')"
    by (simp add: research_ctor_raises)
  from ctor raised
    research_no_validation [of fresh standin_rejecting "PyStr ''''" "''ValueError''"]
  show ?thesis by simp
qed




text \<open>
  C8. \<open>research\<close> neither checks nor converts what the asynchronous operation
  returns. Whatever value \<open>R\<close> comes back, be it text, a number, a list or
  \<^verbatim>\<open>None\<close>, the run returns that very value: in general, and for the stand-in that
  answers every query with \<open>R\<close>.
\<close>

theorem research_returns_value_of_any_type:
  "(GPTResearcher lib (research_kwargs q) (world st) = Some (Inr researcher, w1)
      \<and> conduct_research lib researcher w1 = Some (Inr R, w2)
    \<longrightarrow> research lib q st =
          (Some (Inr R),
           st\<lparr>trace := trace st @ [Call_GPTResearcher (research_kwargs q),
                                    Await_conduct_research researcher],
              world := w2\<rparr>))
   \<and> fst (research (standin_returning R) q fresh) = Some (Inr R)"
proof
  show "GPTResearcher lib (research_kwargs q) (world st) = Some (Inr researcher, w1)
      \<and> conduct_research lib researcher w1 = Some (Inr R, w2)
    \<longrightarrow> research lib q st =
          (Some (Inr R),
           st\<lparr>trace := trace st @ [Call_GPTResearcher (research_kwargs q),
                                    Await_conduct_research researcher],
              world := w2\<rparr>)"
    by (simp add: research_op_returns)
next
  have "GPTResearcher (standin_returning R) (research_kwargs q) (world fresh) =
          Some (Inr (research_kwargs q), [research_kwargs q])"
    by (simp add: standin_returning_def standin_init_def fresh_def)
  moreover have "conduct_research (standin_returning R) (research_kwargs q) [research_kwargs q] =
          Some (Inr R, [research_kwargs q])"
    by (simp add: standin_returning_def)
  ultimately show "fst (research (standin_returning R) q fresh) = Some (Inr R)"
    by (simp add: research_op_returns)
qed

text \<open>A report that is not text: a list holding a number and \<^verbatim>\<open>None\<close>.\<close>

theorem research_returns_value_of_any_type_witness:
  "GPTResearcher (standin_returning (PyList [PyInt 42, PyNone]))
       (research_kwargs (PyStr ''tides'')) (world fresh) =
     Some (Inr (research_kwargs (PyStr ''tides'')), [research_kwargs (PyStr ''tides'')])
   \<and> conduct_research (standin_returning (PyList [PyInt 42, PyNone]))
       (research_kwargs (PyStr ''tides'')) [research_kwargs (PyStr ''tides'')] =
     Some (Inr (PyList [PyInt 42, PyNone]), [research_kwargs (PyStr ''tides'')])
   \<and> fst (research (standin_returning (PyList [PyInt 42, PyNone])) (PyStr ''tides'') fresh) =
     Some (Inr (PyList [PyInt 42, PyNone]))"
proof -
  have ctor: "GPTResearcher (standin_returning (PyList [PyInt 42, PyNone]))
       (research_kwargs (PyStr ''tides'')) (world fresh) =
     Some (Inr (research_kwargs (PyStr ''tides'')), [research_kwargs (PyStr ''tides'')])"
    by (simp add: standin_returning_def standin_init_def fresh_def)
  have op: "conduct_research (standin_returning (PyList [PyInt 42, PyNone]))
       (research_kwargs (PyStr ''tides'')) [research_kwargs (PyStr ''tides'')] =
     Some (Inr (PyList [PyInt 42, PyNone]), [research_kwargs (PyStr ''tides'')])"
    by (simp add: standin_returning_def)
  from ctor op
    research_returns_value_of_any_type
      [of "standin_returning (PyList [PyInt 42, PyNone])" "PyStr ''tides''" fresh
          "research_kwargs (PyStr ''tides'')" "[research_kwargs (PyStr ''tides'')]"
          "PyList [PyInt 42, PyNone]" "[research_kwargs (PyStr ''tides'')]"]
  show ?thesis by simp
qed

text \<open>
  C9. Imported, that is run under any name other than \<^verbatim>\<open>__main__\<close>, the module
  writes nothing to standard output and does not run \<open>research\<close>: its interactions
  are the two imports, with no constructor call and no await, and the world of the
  library is as it was.
\<close>

theorem run_module_imported:
  assumes "name \<noteq> ''__main__''"
  shows "stdout (run_module name st) = stdout st
         \<and> world (run_module name st) = world st
         \<and> new_events st (run_module name st) =
             [Import ''os'', Import_from ''gpt_researcher'' ''GPTResearcher'']
         \<and> constructions (new_events st (run_module name st)) = []
         \<and> awaited (new_events st (run_module name st)) = []"
  using assms by (simp add: run_module_def new_events_def)

theorem run_module_imported_witness:
  "''gpt_researcher_mcp'' \<noteq> ''__main__''
   \<and> stdout (run_module ''gpt_researcher_mcp'' fresh) = []
   \<and> new_events fresh (run_module ''gpt_researcher_mcp'' fresh) =
       [Import ''os'', Import_from ''gpt_researcher'' ''GPTResearcher'']"
proof -
  have n: "''gpt_researcher_mcp'' \<noteq> ''__main__''" by simp
  from n run_module_imported [OF n, of fresh] show ?thesis by (simp add: fresh_def)
qed

text \<open>
  C10. \<open>research\<close> is defined without recursion, and a run of it comes to an end,
  by returning or by raising, whenever the constructor call it makes and the
  asynchronous operation of the library do.
\<close>

theorem research_terminates:
  assumes "GPTResearcher lib (research_kwargs q) (world st) \<noteq> None"
      and "\<forall>researcher w. conduct_research lib researcher w \<noteq> None"
  shows "fst (research lib q st) \<noteq> None"
proof (cases rule: research_cases [of lib q st])
  case ctor_hangs
  with assms(1) show ?thesis by simp
next
  case (ctor_raises e w1)
  then show ?thesis by (simp add: research_ctor_raises)
next
  case (op_hangs researcher w1)
  from assms(2) have "conduct_research lib researcher w1 \<noteq> None" by blast
  with op_hangs show ?thesis by simp
next
  case (op_raises researcher w1 e w2)
  then show ?thesis by (simp add: research_op_raises)
next
  case (op_returns researcher w1 R w2)
  then show ?thesis by (simp add: research_op_returns)
qed

theorem research_terminates_witness:
  "GPTResearcher standin (research_kwargs (PyStr ''tides'')) (world fresh) \<noteq> None
   \<and> (\<forall>researcher w. conduct_research standin researcher w \<noteq> None)
   \<and> fst (research standin (PyStr ''tides'') fresh) \<noteq> None"
proof -
  have ctor: "GPTResearcher standin (research_kwargs (PyStr ''tides'')) (world fresh) \<noteq> None"
    by (simp add: standin_def standin_init_def)
  have op: "\<forall>researcher w. conduct_research standin researcher w \<noteq> None"
    by (simp add: standin_def split: option.split pyval.split)
  from ctor op research_terminates [OF ctor op] show ?thesis by simp
qed

end
